theory Spec2Isabelle
  imports Complex_Main "HOL-Library.Sublist"
begin

section \<open>FMV Tracker: the ETL of \<^verbatim>\<open>src/etl/prepare_data.py\<close>\<close>

text \<open>
  The module cleans four kinds of spreadsheet exports with pandas: it rewrites the column
  labels (\<^verbatim>\<open>normalize_colname\<close>, \<^verbatim>\<open>apply_aliases\<close>), cleans text cells
  (\<^verbatim>\<open>clean_text\<close>), parses dates (\<^verbatim>\<open>coerce_date\<close>) and numbers
  (\<^verbatim>\<open>to_number\<close>) and derives two columns (\<^verbatim>\<open>clean_lines\<close>).

  The embedding follows the source function by function. What pandas and Python do
  inside the calls the source makes is written out where the source relies on it:
  \<^item> a text is a \<open>string\<close>; a character stands for the code point of the same number
    (U+0000 to U+00FF), and white space, digits and letter case are Python's on that range;
  \<^item> a number cell is a \<open>fl\<close>: a finite value, an infinity or NaN. Finite values are
    exact rationals: the rounding of binary floating point, overflow and the sign of zero
    are not modelled;
  \<^item> a data frame is the list of its columns in order, each with its label; a label may
    occur more than once, as pandas allows. Rows are positional;
  \<^item> an exception is a value: a function that can raise returns \<open>error + frame\<close>.
\<close>

subsection \<open>Characters and texts\<close>

text \<open>
  \<^verbatim>\<open>str.isspace\<close>, which \<^verbatim>\<open>str.strip()\<close> and the pattern \<^verbatim>\<open>\s\<close> both use: the
  controls 9 to 13 and 28 to 31, the space, NEL (133) and the no-break space (160).
\<close>

definition isspace :: "char \<Rightarrow> bool" where
  "isspace c =
     (let n = (of_char c :: nat)
      in (9 \<le> n \<and> n \<le> 13) \<or> (28 \<le> n \<and> n \<le> 32) \<or> n = 133 \<or> n = 160)"

text \<open>The pattern \<^verbatim>\<open>\d\<close>: below U+0100 the decimal digits are \<open>0\<close> to \<open>9\<close>.\<close>

definition isdigit :: "char \<Rightarrow> bool" where
  "isdigit c = (let n = (of_char c :: nat) in 48 \<le> n \<and> n \<le> 57)"

text \<open>The character class \<^verbatim>\<open>[a-z0-9_]\<close>.\<close>

definition ident_char :: "char \<Rightarrow> bool" where
  "ident_char c =
     (let n = (of_char c :: nat)
      in (97 \<le> n \<and> n \<le> 122) \<or> (48 \<le> n \<and> n \<le> 57) \<or> n = 95)"

definition is_us :: "char \<Rightarrow> bool" where
  "is_us c = (c = CHR ''_'')"

text \<open>
  \<^verbatim>\<open>str.lower\<close> on one character: \<open>A\<close> to \<open>Z\<close>, and the Latin-1 capitals 192 to 222
  without the multiplication sign (215), move up by 32.
\<close>

definition lower_char :: "char \<Rightarrow> char" where
  "lower_char c =
     (let n = (of_char c :: nat)
      in if (65 \<le> n \<and> n \<le> 90) \<or> (192 \<le> n \<and> n \<le> 222 \<and> n \<noteq> 215)
         then char_of (n + 32) else c)"

text \<open>
  \<^verbatim>\<open>str.upper\<close> on one character gives a text: the sharp s (223) becomes \<open>SS\<close>. The
  micro sign (181) and the y with diaeresis (255) have capitals above U+00FF, which a
  \<open>char\<close> cannot hold; they are left as they are here.
\<close>

definition upper_char :: "char \<Rightarrow> string" where
  "upper_char c =
     (let n = (of_char c :: nat)
      in if (97 \<le> n \<and> n \<le> 122) \<or> (224 \<le> n \<and> n \<le> 254 \<and> n \<noteq> 247)
         then [char_of (n - 32)]
         else if n = 223 then ''SS'' else [c])"

definition str_lower :: "string \<Rightarrow> string" where
  "str_lower s = map lower_char s"

definition str_upper :: "string \<Rightarrow> string" where
  "str_upper s = concat (map upper_char s)"

text \<open>\<^verbatim>\<open>s.strip(chars)\<close>: drop the leading and the trailing characters of the class.\<close>

definition strip_by :: "(char \<Rightarrow> bool) \<Rightarrow> string \<Rightarrow> string" where
  "strip_by p s = rev (dropWhile p (rev (dropWhile p s)))"

definition str_strip :: "string \<Rightarrow> string" where
  "str_strip s = strip_by isspace s"

text \<open>
  \<^verbatim>\<open>re.sub(r"C+", r, s)\<close> for a character class \<open>C\<close>: every maximal run of characters
  of the class is replaced by \<open>r\<close>.
\<close>

function sub_runs :: "(char \<Rightarrow> bool) \<Rightarrow> string \<Rightarrow> string \<Rightarrow> string" where
  "sub_runs p r [] = []"
| "sub_runs p r (c # cs) =
     (if p c then r @ sub_runs p r (dropWhile p cs) else c # sub_runs p r cs)"
  by pat_completeness auto
termination
  by (relation "measure (\<lambda>(p, r, s). length s)")
     (auto simp: less_Suc_eq_le length_dropWhile_le)

text \<open>\<^verbatim>\<open>str(i)\<close> of a Python integer.\<close>

fun digits_of :: "nat \<Rightarrow> string" where
  "digits_of n =
     (if n < 10 then [char_of (48 + n)] else digits_of (n div 10) @ [char_of (48 + n mod 10)])"

definition str_int :: "int \<Rightarrow> string" where
  "str_int i = (if i < 0 then CHR ''-'' # digits_of (nat (- i)) else digits_of (nat i))"

subsection \<open>Numbers\<close>

datatype fl = Fin rat | PInf | NInf | NaN




subsection \<open>Data frames\<close>

text \<open>
  A cell of an \<^verbatim>\<open>object\<close> column is a text or the missing value (the float NaN that
  \<^verbatim>\<open>read_csv\<close> puts in an empty cell). A column has one of four dtypes; in a
  \<open>Datetime64\<close> column \<open>None\<close> is \<^verbatim>\<open>NaT\<close>.
\<close>

datatype obj = Str string | Null

datatype column =
    Object "obj list"
  | Int64 "int list"
  | Float64 "fl list"
  | Datetime64 "int option list"

type_synonym frame = "(string \<times> column) list"

datatype error = KeyError | AttributeError | ValueError | TypeError

definition and_then :: "error + 'a \<Rightarrow> ('a \<Rightarrow> error + 'b) \<Rightarrow> error + 'b" where
  "and_then m f = (case m of Inl e \<Rightarrow> Inl e | Inr x \<Rightarrow> f x)"

text \<open>
  What the library computes and the source does not fix is a parameter of the model: the
  text Python prints for a finite float and for a timestamp, and the date parser behind
  \<^verbatim>\<open>pd.to_datetime\<close> (\<open>None\<close> when it cannot parse; it sees the whole column, since
  pandas may infer one format for it). Every theorem below holds for every such library.
\<close>

record pylib =
  float_str :: "rat \<Rightarrow> string"
  stamp_str :: "int \<Rightarrow> string"
  date_of_text :: "obj list \<Rightarrow> string \<Rightarrow> int option"
  date_of_num :: "rat \<Rightarrow> int option"

text \<open>
  \<^verbatim>\<open>series.astype(str)\<close>: \<^verbatim>\<open>str\<close> of every cell. The missing value becomes the text
  \<open>nan\<close> (\<open>NaT\<close> in a datetime column).
\<close>

definition str_fl :: "pylib \<Rightarrow> fl \<Rightarrow> string" where
  "str_fl L x =
     (case x of Fin r \<Rightarrow> float_str L r | PInf \<Rightarrow> ''inf'' | NInf \<Rightarrow> ''-inf'' | NaN \<Rightarrow> ''nan'')"

definition astype_str :: "pylib \<Rightarrow> column \<Rightarrow> string list" where
  "astype_str L s =
     (case s of
        Object xs \<Rightarrow> map (\<lambda>x. case x of Str t \<Rightarrow> t | Null \<Rightarrow> ''nan'') xs
      | Int64 xs \<Rightarrow> map str_int xs
      | Float64 xs \<Rightarrow> map (str_fl L) xs
      | Datetime64 xs \<Rightarrow> map (\<lambda>x. case x of None \<Rightarrow> ''NaT'' | Some t \<Rightarrow> stamp_str L t) xs)"

text \<open>\<^verbatim>\<open>c in df.columns\<close>.\<close>

definition has_col :: "frame \<Rightarrow> string \<Rightarrow> bool" where
  "has_col df c = (c \<in> set (map fst df))"

text \<open>
  \<^verbatim>\<open>df[c]\<close> selects every column labelled \<open>c\<close>: one column is a Series, several are a
  DataFrame, none raises \<^verbatim>\<open>KeyError\<close>.
\<close>

definition select :: "frame \<Rightarrow> string \<Rightarrow> column list" where
  "select df c = map snd (filter (\<lambda>lc. fst lc = c) df)"

text \<open>
  \<^verbatim>\<open>df[c] = s\<close> for a Series \<open>s\<close>: every column labelled \<open>c\<close> is replaced in place; when
  there is none the column is appended.
\<close>

definition setitem :: "frame \<Rightarrow> string \<Rightarrow> column \<Rightarrow> frame" where
  "setitem df c s =
     (if has_col df c then map (\<lambda>lc. if fst lc = c then (c, s) else lc) df
      else df @ [(c, s)])"

subsection \<open>Column names\<close>

definition normalize_colname :: "string \<Rightarrow> string" where
  "normalize_colname name =
     (let name = str_lower (str_strip name);
          name = sub_runs isspace ''_'' name;
          name = filter ident_char name;
          name = sub_runs is_us ''_'' name
      in strip_by is_us name)"

definition normalize_columns :: "frame \<Rightarrow> frame" where
  "normalize_columns df = map (\<lambda>lc. (normalize_colname (fst lc), snd lc)) df"

text \<open>
  The dict comprehension that builds \<^verbatim>\<open>rename_map\<close>: the items of \<^verbatim>\<open>aliases\<close> in
  order, a later item overwriting an earlier one with the same normalized key.
\<close>

definition rename_map :: "(string \<times> string) list \<Rightarrow> (string \<rightharpoonup> string)" where
  "rename_map aliases =
     foldl (\<lambda>m kv. m(normalize_colname (fst kv) \<mapsto> normalize_colname (snd kv))) Map.empty aliases"

text \<open>\<^verbatim>\<open>rename_map.get(c, c)\<close>.\<close>

definition get_or :: "(string \<rightharpoonup> string) \<Rightarrow> string \<Rightarrow> string" where
  "get_or m c = (case m c of None \<Rightarrow> c | Some v \<Rightarrow> v)"

definition apply_aliases :: "frame \<Rightarrow> (string \<times> string) list \<Rightarrow> frame" where
  "apply_aliases df aliases =
     (let df = normalize_columns df;
          rm = rename_map aliases
      in map (\<lambda>lc. (get_or rm (fst lc), snd lc)) df)"

subsection \<open>Cell cleaning\<close>

text \<open>
  \<^verbatim>\<open>df[col].astype(str).str\<close> needs a Series: when \<open>col\<close> labels several columns,
  \<^verbatim>\<open>df[col]\<close> is a DataFrame, which has no \<^verbatim>\<open>.str\<close>, and the access raises
  \<^verbatim>\<open>AttributeError\<close>.
\<close>

definition clean_text :: "pylib \<Rightarrow> frame \<Rightarrow> string \<Rightarrow> bool \<Rightarrow> error + frame" where
  "clean_text L df col upper =
     (if \<not> has_col df col then Inr df
      else case select df col of
        [] \<Rightarrow> Inl KeyError
      | [c] \<Rightarrow>
          (let s = map (\<lambda>t. sub_runs isspace '' '' (str_strip t)) (astype_str L c);
               s = (if upper then map str_upper s else s)
           in Inr (setitem df col (Object (map Str s))))
      | _ \<Rightarrow> Inl AttributeError)"

text \<open>
  \<^verbatim>\<open>pd.to_datetime(series, errors="coerce")\<close>: a missing cell and the empty text are
  \<^verbatim>\<open>NaT\<close>, and so is whatever the parser cannot read.
\<close>

definition to_datetime :: "pylib \<Rightarrow> column \<Rightarrow> int option list" where
  "to_datetime L s =
     (case s of
        Object xs \<Rightarrow>
          map (\<lambda>x. case x of Null \<Rightarrow> None
                   | Str t \<Rightarrow> if t = [] then None else date_of_text L xs t) xs
      | Int64 xs \<Rightarrow> map (\<lambda>i. date_of_num L (of_int i)) xs
      | Float64 xs \<Rightarrow> map (\<lambda>x. case x of Fin r \<Rightarrow> date_of_num L r | _ \<Rightarrow> None) xs
      | Datetime64 xs \<Rightarrow> xs)"

text \<open>
  Given a DataFrame (a repeated label), \<^verbatim>\<open>pd.to_datetime\<close> tries to assemble dates
  from its columns and raises \<^verbatim>\<open>ValueError\<close>, whatever \<^verbatim>\<open>errors\<close> is.
\<close>

definition coerce_date :: "pylib \<Rightarrow> frame \<Rightarrow> string \<Rightarrow> error + frame" where
  "coerce_date L df col =
     (if \<not> has_col df col then Inr df
      else case select df col of
        [] \<Rightarrow> Inl KeyError
      | [c] \<Rightarrow> Inr (setitem df col (Datetime64 (to_datetime L c)))
      | _ \<Rightarrow> Inl ValueError)"

text \<open>
  \<^verbatim>\<open>pd.to_numeric(s, errors="coerce")\<close> on one text. The texts that reach it hold only
  digits, \<open>-\<close> and \<open>.\<close>; the parser takes an optional sign, digits, and an optional point
  followed by digits, with a digit on one side of the point at least. Anything else,
  the empty text too, is NaN.
\<close>

definition digits_value :: "string \<Rightarrow> int" where
  "digits_value ds = foldl (\<lambda>n c. 10 * n + (of_char c - 48)) 0 ds"

definition parse_unsigned :: "string \<Rightarrow> rat option" where
  "parse_unsigned s =
     (let ip = takeWhile isdigit s; rest = dropWhile isdigit s
      in case rest of
           [] \<Rightarrow> if ip = [] then None else Some (of_int (digits_value ip))
         | c # fp \<Rightarrow>
             if c = CHR ''.'' \<and> list_all isdigit fp \<and> (ip \<noteq> [] \<or> fp \<noteq> [])
             then Some (of_int (digits_value (ip @ fp)) / 10 ^ length fp)
             else None)"

definition to_numeric :: "string \<Rightarrow> fl" where
  "to_numeric s =
     (case s of
        [] \<Rightarrow> NaN
      | c # r \<Rightarrow>
          if c = CHR ''-''
          then (case parse_unsigned r of None \<Rightarrow> NaN | Some v \<Rightarrow> Fin (- v))
          else (case parse_unsigned s of None \<Rightarrow> NaN | Some v \<Rightarrow> Fin v))"

text \<open>The class \<^verbatim>\<open>[^\d\-,\.]\<close> removes everything but these characters.\<close>

definition numeric_char :: "char \<Rightarrow> bool" where
  "numeric_char c = (isdigit c \<or> c = CHR ''-'' \<or> c = CHR '','' \<or> c = CHR ''.'')"

text \<open>
  The separator heuristic on one text. Both masks are computed before the text changes:
  only a comma makes the comma the decimal point; a comma and a point make the comma a
  thousands separator, which is removed.
\<close>

definition fix_separators :: "string \<Rightarrow> string" where
  "fix_separators s =
     (let has_comma = (CHR '','' \<in> set s);
          has_dot = (CHR ''.'' \<in> set s);
          only_comma = (has_comma \<and> \<not> has_dot);
          s = (if only_comma then filter (\<lambda>c. c \<noteq> CHR ''.'') s else s);
          s = (if only_comma then map (\<lambda>c. if c = CHR '','' then CHR ''.'' else c) s else s);
          both = (has_comma \<and> has_dot);
          s = (if both then filter (\<lambda>c. c \<noteq> CHR '','') s else s)
      in s)"

definition to_number_text :: "string \<Rightarrow> fl" where
  "to_number_text t = to_numeric (fix_separators (filter numeric_char (str_strip t)))"

definition to_number :: "pylib \<Rightarrow> column \<Rightarrow> column" where
  "to_number L series = Float64 (map to_number_text (astype_str L series))"


subsection \<open>Series arithmetic\<close>




subsection \<open>The four cleaners\<close>

definition lines_aliases :: "(string \<times> string) list" where
  "lines_aliases =
     [(''entidad'', ''esfs''),
      (''institucion'', ''esfs''),
      (''banco'', ''esfs''),
      (''tipo'', ''tipo_linea''),
      (''linea'', ''tipo_linea''),
      (''monto'', ''monto_aprobado''),
      (''monto_linea'', ''monto_aprobado''),
      (''saldo'', ''saldo_disponible''),
      (''saldo_linea'', ''saldo_disponible''),
      (''vigencia'', ''fecha_vigencia''),
      (''fecha_vencimiento'', ''fecha_vigencia'')]"





definition splaft_aliases :: "(string \<times> string) list" where
  "splaft_aliases =
     [(''entidad'', ''esfs''),
      (''institucion'', ''esfs''),
      (''fecha'', ''fecha_actualizacion''),
      (''actualizacion'', ''fecha_actualizacion'')]"

definition estado_synonyms :: "(string \<times> string) list" where
  "estado_synonyms =
     [(''enviado'', ''recibido''),
      (''ok'', ''aprobado''),
      (''aprobada'', ''aprobado''),
      (''observada'', ''observado'')]"

text \<open>\<^verbatim>\<open>Series.replace(dict)\<close> on one value: a value equal to a key becomes that key's value.\<close>

definition replace_value :: "(string \<times> string) list \<Rightarrow> string \<Rightarrow> string" where
  "replace_value table v = (case map_of table v of None \<Rightarrow> v | Some w \<Rightarrow> w)"

text \<open>The block under \<^verbatim>\<open># estandariza estado basico\<close> of \<^verbatim>\<open>clean_splaft\<close>.\<close>

definition standardize_estado :: "pylib \<Rightarrow> frame \<Rightarrow> error + frame" where
  "standardize_estado L df =
     (if \<not> has_col df ''estado'' then Inr df
      else case select df ''estado'' of
        [] \<Rightarrow> Inl KeyError
      | [c] \<Rightarrow>
          (let s = map (\<lambda>t. str_lower (str_strip t)) (astype_str L c);
               s = map (replace_value estado_synonyms) s
           in Inr (setitem df ''estado'' (Object (map Str s))))
      | _ \<Rightarrow> Inl AttributeError)"

definition clean_splaft :: "pylib \<Rightarrow> frame \<Rightarrow> error + frame" where
  "clean_splaft L df =
     (let df = apply_aliases df splaft_aliases
      in and_then (clean_text L df ''esfs'' True)
        (\<lambda>df. and_then (clean_text L df ''documento'' False)
        (\<lambda>df. and_then (clean_text L df ''estado'' False)
        (\<lambda>df. and_then (coerce_date L df ''fecha_actualizacion'')
        (standardize_estado L)))))"

definition contacts_aliases :: "(string \<times> string) list" where
  "contacts_aliases =
     [(''entidad'', ''institucion''),
      (''esfs'', ''institucion''),
      (''ifi'', ''institucion''),
      (''mail'', ''correo''),
      (''email'', ''correo''),
      (''celular'', ''telefono''),
      (''telefono_contacto'', ''telefono''),
      (''fecha'', ''ultima_actualizacion'')]"

definition clean_contacts :: "pylib \<Rightarrow> frame \<Rightarrow> error + frame" where
  "clean_contacts L df =
     (let df = apply_aliases df contacts_aliases
      in and_then (clean_text L df ''institucion'' True)
        (\<lambda>df. and_then (clean_text L df ''nombre'' False)
        (\<lambda>df. and_then (clean_text L df ''cargo'' False)
        (\<lambda>df. and_then (clean_text L df ''correo'' False)
        (\<lambda>df. and_then (clean_text L df ''telefono'' False)
        (\<lambda>df. coerce_date L df ''ultima_actualizacion''))))))"

subsection \<open>A library for the worked examples\<close>

text \<open>
  The examples below need one concrete library. This one prints a finite float with up to
  six decimals (at least one), prints a timestamp as an integer, and reads a date only
  in the form \<open>YYYY-MM-DD\<close>, as the number \<open>YYYYMMDD\<close>.
\<close>

definition sample_float_str :: "rat \<Rightarrow> string" where
  "sample_float_str r =
     (let m = nat \<lfloor>\<bar>r\<bar> * 1000000\<rfloor>;
          fp = digits_of (m mod 1000000);
          fp = replicate (6 - length fp) (CHR ''0'') @ fp;
          fp = rev (dropWhile (\<lambda>c. c = CHR ''0'') (rev fp))
      in (if r < 0 then ''-'' else []) @ digits_of (m div 1000000) @ ''.'' @
         (if fp = [] then ''0'' else fp))"

definition iso_date :: "string \<Rightarrow> int option" where
  "iso_date t =
     (let y = take 4 t; m = take 2 (drop 5 t); d = drop 8 t
      in if length t = 10 \<and> t ! 4 = CHR ''-'' \<and> t ! 7 = CHR ''-'' \<and> list_all isdigit (y @ m @ d)
            \<and> 1 \<le> digits_value m \<and> digits_value m \<le> 12
            \<and> 1 \<le> digits_value d \<and> digits_value d \<le> 31
         then Some (digits_value (y @ m @ d))
         else None)"

definition sample_lib :: pylib where
  "sample_lib =
     \<lparr> float_str = sample_float_str,
       stamp_str = str_int,
       date_of_text = (\<lambda>xs t. iso_date t),
       date_of_num = (\<lambda>r. Some \<lfloor>r\<rfloor>) \<rparr>"

subsection \<open>Predicates used in the statements\<close>

text \<open>
  A canonical column name: only characters of \<^verbatim>\<open>[a-z0-9_]\<close>, no two underscores in a
  row, none at either end.
\<close>

definition canonical :: "string \<Rightarrow> bool" where
  "canonical s =
     ((\<forall>c\<in>set s. ident_char c) \<and> \<not> sublist ''__'' s \<and>
      (s = [] \<or> (hd s \<noteq> CHR ''_'' \<and> last s \<noteq> CHR ''_'')))"

text \<open>The name a raw label ends up with in \<^verbatim>\<open>apply_aliases\<close>.\<close>

definition resolve :: "(string \<times> string) list \<Rightarrow> string \<Rightarrow> string" where
  "resolve aliases c = get_or (rename_map aliases) (normalize_colname c)"



definition splaft_designated :: "string list" where
  "splaft_designated = [''esfs'', ''documento'', ''estado'', ''fecha_actualizacion'']"


definition unrepeated :: "frame \<Rightarrow> string list \<Rightarrow> bool" where
  "unrepeated df cs = list_all (\<lambda>c. length (select df c) \<le> 1) cs"

text \<open>
  What each step does to the column it is given, and the step itself on a table where
  the label is not repeated: every column of that label is rewritten, the others stay.
\<close>

definition map_col :: "frame \<Rightarrow> string \<Rightarrow> (column \<Rightarrow> column) \<Rightarrow> frame" where
  "map_col df c f = map (\<lambda>lc. if fst lc = c then (c, f (snd lc)) else lc) df"

definition clean_cell :: "bool \<Rightarrow> string \<Rightarrow> string" where
  "clean_cell upper t =
     (let s = sub_runs isspace '' '' (str_strip t) in if upper then str_upper s else s)"

definition text_column :: "pylib \<Rightarrow> bool \<Rightarrow> column \<Rightarrow> column" where
  "text_column L upper c = Object (map (\<lambda>t. Str (clean_cell upper t)) (astype_str L c))"

definition date_column :: "pylib \<Rightarrow> column \<Rightarrow> column" where
  "date_column L c = Datetime64 (to_datetime L c)"

definition estado_column :: "pylib \<Rightarrow> column \<Rightarrow> column" where
  "estado_column L c =
     Object (map (\<lambda>t. Str (replace_value estado_synonyms (str_lower (str_strip t))))
       (astype_str L c))"





text \<open>The table \<^verbatim>\<open>clean_splaft\<close> returns when it returns.\<close>

definition splaft_result :: "pylib \<Rightarrow> frame \<Rightarrow> frame" where
  "splaft_result L t =
     map_col (map_col (map_col (map_col (map_col t
       ''esfs'' (text_column L True))
       ''documento'' (text_column L False))
       ''estado'' (text_column L False))
       ''fecha_actualizacion'' (date_column L))
       ''estado'' (estado_column L)"

section \<open>Column names\<close>

subsection \<open>Stripping and run replacement\<close>

lemma ident_not_space: "ident_char c \<Longrightarrow> \<not> isspace c"
  by (auto simp: ident_char_def isspace_def Let_def)

lemma ident_lower: "ident_char c \<Longrightarrow> lower_char c = c"
  by (auto simp: ident_char_def lower_char_def Let_def)

lemma us_ident: "ident_char (CHR ''_'')"
  by (simp add: ident_char_def)

lemma is_us_eq: "is_us = (\<lambda>c. c = CHR ''_'')"
  by (simp add: is_us_def fun_eq_iff)

lemma set_sub_runs: "set (sub_runs p r s) \<subseteq> set s \<union> set r"
proof (induction p r s rule: sub_runs.induct)
  case (1 p r)
  then show ?case by simp
next
  case (2 p r c cs)
  have "set (dropWhile p cs) \<subseteq> set cs" by (simp add: set_dropWhileD subsetI)
  with 2 show ?case by (auto split: if_splits)
qed

lemma sublist_strip_by: "sublist (strip_by p s) s"
proof -
  have "sublist (dropWhile p (rev (dropWhile p s))) (rev (dropWhile p s))" by simp
  then have "sublist (strip_by p s) (dropWhile p s)"
    unfolding strip_by_def by (simp add: sublist_rev_left)
  moreover have "sublist (dropWhile p s) s" by simp
  ultimately show ?thesis by (rule sublist_order.order_trans)
qed

lemma set_strip_by: "set (strip_by p s) \<subseteq> set s"
  by (rule set_mono_sublist [OF sublist_strip_by])

lemma strip_by_id:
  assumes "s = [] \<or> (\<not> p (hd s) \<and> \<not> p (last s))"
  shows "strip_by p s = s"
proof (cases "s = []")
  case True
  then show ?thesis by (simp add: strip_by_def)
next
  case False
  with assms have h: "\<not> p (hd s)" and l: "\<not> p (last s)" by auto
  have 1: "dropWhile p s = s" using h by (simp add: dropWhile_eq_self_iff)
  have "hd (rev s) = last s" using False by (simp add: hd_rev)
  then have 2: "dropWhile p (rev s) = rev s" using l by (simp add: dropWhile_eq_self_iff)
  show ?thesis by (simp add: strip_by_def 1 2)
qed

lemma last_dropWhile_keep: "dropWhile p xs \<noteq> [] \<Longrightarrow> last (dropWhile p xs) = last xs"
  by (induction xs) (auto split: if_splits)

lemma strip_by_ends:
  assumes "strip_by p s \<noteq> []"
  shows "\<not> p (hd (strip_by p s))" and "\<not> p (last (strip_by p s))"
proof -
  define t where "t = dropWhile p s"
  define u where "u = dropWhile p (rev t)"
  have su: "strip_by p s = rev u" by (simp add: strip_by_def t_def u_def)
  with assms have une: "u \<noteq> []" by simp
  then have tne: "t \<noteq> []" by (auto simp: u_def)
  have "\<not> p (hd u)" using une unfolding u_def by (rule hd_dropWhile)
  then show "\<not> p (last (strip_by p s))" using une by (simp add: su last_rev)
  have "last u = last (rev t)" using une unfolding u_def by (rule last_dropWhile_keep)
  then have "last u = hd t" using tne by (simp add: last_rev)
  moreover have "\<not> p (hd t)" using tne unfolding t_def by (rule hd_dropWhile)
  ultimately show "\<not> p (hd (strip_by p s))" using une by (simp add: su hd_rev)
qed

lemma sub_runs_none: "\<forall>c\<in>set s. \<not> p c \<Longrightarrow> sub_runs p r s = s"
  by (induction s) auto

lemma sub_runs_head:
  "s = [] \<or> \<not> p (hd s) \<Longrightarrow> sub_runs p r s = [] \<or> hd (sub_runs p r s) = hd s"
  by (cases s) auto

lemma sub_runs_no_adj_aux:
  "p = (\<lambda>c. c = c0) \<Longrightarrow> r = [c0] \<Longrightarrow> \<not> sublist [c0, c0] (sub_runs p r s)"
proof (induction p r s rule: sub_runs.induct)
  case (1 p r)
  then show ?case by simp
next
  case (2 p r c cs)
  show ?case
  proof (cases "p c")
    case True
    define t where "t = dropWhile p cs"
    have ih: "\<not> sublist [c0, c0] (sub_runs p r t)"
      using 2 True by (simp add: t_def)
    have t: "t = [] \<or> \<not> p (hd t)" unfolding t_def using hd_dropWhile by blast
    then have "sub_runs p r t = [] \<or> hd (sub_runs p r t) = hd t" by (rule sub_runs_head)
    moreover have "t = [] \<Longrightarrow> sub_runs p r t = []" by simp
    ultimately have hd: "sub_runs p r t = [] \<or> hd (sub_runs p r t) \<noteq> c0"
      using t 2(3) by auto
    have "sub_runs p r (c # cs) = c0 # sub_runs p r t"
      using True 2(3,4) by (simp add: t_def)
    moreover have "\<not> prefix [c0, c0] (c0 # sub_runs p r t)"
      using hd by (cases "sub_runs p r t") auto
    ultimately show ?thesis using ih by (simp add: sublist_Cons_right)
  next
    case False
    then have "c \<noteq> c0" using 2(3) by simp
    moreover have "\<not> sublist [c0, c0] (sub_runs p r cs)" using 2 False by simp
    ultimately show ?thesis using False by (simp add: sublist_Cons_right)
  qed
qed

lemma sub_runs_no_adj: "\<not> sublist [c0, c0] (sub_runs (\<lambda>c. c = c0) [c0] s)"
  by (rule sub_runs_no_adj_aux) simp_all

lemma sub_runs_id: "\<not> sublist [c0, c0] s \<Longrightarrow> sub_runs (\<lambda>c. c = c0) [c0] s = s"
proof (induction s)
  case Nil
  then show ?case by simp
next
  case (Cons c cs)
  from Cons.prems have np: "\<not> prefix [c0, c0] (c # cs)" and ns: "\<not> sublist [c0, c0] cs"
    by (simp_all add: sublist_Cons_right)
  have ih: "sub_runs (\<lambda>c. c = c0) [c0] cs = cs" using Cons.IH ns by simp
  show ?case
  proof (cases "c = c0")
    case True
    with np have "cs = [] \<or> hd cs \<noteq> c0" by (cases cs) auto
    then have "dropWhile (\<lambda>c. c = c0) cs = cs" by (simp add: dropWhile_eq_self_iff)
    then show ?thesis using True ih by simp
  next
    case False
    then show ?thesis using ih by simp
  qed
qed

subsection \<open>The normalizer ends in a canonical name and leaves canonical names alone\<close>

lemma normalize_colname_canonical: "canonical (normalize_colname x)"
proof -
  define a where
    "a = filter ident_char (sub_runs isspace ''_'' (str_lower (str_strip x)))"
  define b where "b = sub_runs is_us ''_'' a"
  have n: "normalize_colname x = strip_by is_us b"
    by (simp add: normalize_colname_def a_def b_def)
  have "\<forall>c\<in>set a. ident_char c" by (simp add: a_def)
  then have "\<forall>c\<in>set b. ident_char c"
    using set_sub_runs [of is_us "''_''" a] us_ident unfolding b_def by auto
  then have 1: "\<forall>c\<in>set (strip_by is_us b). ident_char c"
    using set_strip_by [of is_us b] by auto
  have "\<not> sublist ''__'' b" unfolding b_def is_us_eq by (rule sub_runs_no_adj)
  then have 2: "\<not> sublist ''__'' (strip_by is_us b)"
    using sublist_strip_by [of is_us b] sublist_order.order_trans by blast
  have 3: "strip_by is_us b = [] \<or>
      (hd (strip_by is_us b) \<noteq> CHR ''_'' \<and> last (strip_by is_us b) \<noteq> CHR ''_'')"
    using strip_by_ends [of is_us b] by (auto simp: is_us_def)
  show ?thesis unfolding n canonical_def using 1 2 3 by blast
qed

lemma canonical_fixed:
  assumes "canonical s"
  shows "normalize_colname s = s"
proof -
  from assms have id: "\<forall>c\<in>set s. ident_char c" and na: "\<not> sublist ''__'' s"
    and ends: "s = [] \<or> (hd s \<noteq> CHR ''_'' \<and> last s \<noteq> CHR ''_'')"
    by (auto simp: canonical_def)
  have "s = [] \<or> (\<not> isspace (hd s) \<and> \<not> isspace (last s))"
    using id ident_not_space by (cases "s = []") auto
  then have 1: "str_strip s = s" unfolding str_strip_def by (rule strip_by_id)
  have 2: "str_lower s = s" using id by (simp add: str_lower_def ident_lower map_idI)
  have 3: "sub_runs isspace ''_'' s = s"
    using id ident_not_space by (simp add: sub_runs_none)
  have 4: "filter ident_char s = s" using id by simp
  have 5: "sub_runs is_us ''_'' s = s" unfolding is_us_eq using na by (rule sub_runs_id)
  have 6: "strip_by is_us s = s" using ends by (intro strip_by_id) (auto simp: is_us_def)
  show ?thesis by (simp add: normalize_colname_def 1 2 3 4 5 6)
qed

text \<open>
  Claim C4. \<^verbatim>\<open>normalize_colname\<close> is a function on every text (it has no failing
  branch: its result type is \<open>string\<close>) and it is idempotent: normalizing a normalized
  name changes nothing.
\<close>

theorem normalize_colname_idempotent:
  "normalize_colname (normalize_colname x) = normalize_colname x"
  by (rule canonical_fixed [OF normalize_colname_canonical])

theorem normalize_colname_idempotent_witness:
  "normalize_colname (normalize_colname ''  Monto  Linea (S/.) __x '') = ''monto_linea_s_x''"
proof -
  have e: "normalize_colname ''  Monto  Linea (S/.) __x '' = ''monto_linea_s_x''"
    by code_simp
  show ?thesis
    using normalize_colname_idempotent [of "''  Monto  Linea (S/.) __x ''"] e by simp
qed

section \<open>Alias resolution\<close>

lemma rename_map_Nil: "rename_map [] = Map.empty"
  by (simp add: rename_map_def)

text \<open>
  Claim C6. With an empty alias mapping \<^verbatim>\<open>apply_aliases\<close> returns the table that
  \<^verbatim>\<open>normalize_columns\<close> returns, for every input table.
\<close>

theorem apply_aliases_empty:
  "apply_aliases df [] = normalize_columns df"
  by (simp add: apply_aliases_def rename_map_Nil get_or_def)

theorem apply_aliases_empty_witness:
  "apply_aliases [(''Monto Linea'', Object [Str ''1'']), ('' ESFS '', Object [Null])] [] =
     [(''monto_linea'', Object [Str ''1'']), (''esfs'', Object [Null])]"
proof -
  have e: "normalize_columns [(''Monto Linea'', Object [Str ''1'']), ('' ESFS '', Object [Null])] =
      [(''monto_linea'', Object [Str ''1'']), (''esfs'', Object [Null])]"
    by code_simp
  show ?thesis
    using apply_aliases_empty
      [of "[(''Monto Linea'', Object [Str ''1'']), ('' ESFS '', Object [Null])]"] e
    by simp
qed

text \<open>
  Claim C5, as stated, fails. \<open>Monto\<close> and \<open>Monto Linea\<close> both resolve to
  \<open>monto_aprobado\<close>; \<^verbatim>\<open>DataFrame.rename\<close> relabels each column on its own, so the result
  has two columns of that name, the first with the cells of \<open>Monto\<close>: no column wins and
  the table does not end with a single \<open>monto_aprobado\<close> column.
\<close>

theorem apply_aliases_collision_keeps_both:
  "apply_aliases
     [(''Monto'', Object [Str ''1'']), (''Monto Linea'', Object [Str ''2''])] lines_aliases =
     [(''monto_aprobado'', Object [Str ''1'']), (''monto_aprobado'', Object [Str ''2''])]"
  by code_simp

text \<open>
  Claim C5, amended. \<^verbatim>\<open>apply_aliases\<close> never raises and keeps every column: the cells
  and the order of the columns are those of the input, each label is the resolved name of
  the original one, and the columns labelled \<open>c\<close> in the result are all the input columns
  whose label resolves to \<open>c\<close>, in their original order. Columns that collide stay side by
  side under the same label.
\<close>

theorem apply_aliases_keeps_every_column:
  "map snd (apply_aliases df aliases) = map snd df \<and>
   map fst (apply_aliases df aliases) = map (resolve aliases) (map fst df) \<and>
   select (apply_aliases df aliases) c =
     map snd (filter (\<lambda>lc. resolve aliases (fst lc) = c) df)"
  by (simp add: apply_aliases_def normalize_columns_def resolve_def select_def
      comp_def filter_map)

theorem apply_aliases_keeps_every_column_witness:
  "select
     (apply_aliases
        [(''Monto'', Object [Str ''1'']), (''Saldo'', Object [Str ''3'']),
         (''Monto Linea'', Object [Str ''2''])] lines_aliases) ''monto_aprobado'' =
     [Object [Str ''1''], Object [Str ''2'']]"
proof -
  have e: "map snd (filter (\<lambda>lc. resolve lines_aliases (fst lc) = ''monto_aprobado'')
       [(''Monto'', Object [Str ''1'']), (''Saldo'', Object [Str ''3'']),
        (''Monto Linea'', Object [Str ''2''])]) = [Object [Str ''1''], Object [Str ''2'']]"
    by code_simp
  show ?thesis
    using apply_aliases_keeps_every_column
      [of "[(''Monto'', Object [Str ''1'']), (''Saldo'', Object [Str ''3'']),
            (''Monto Linea'', Object [Str ''2''])]" lines_aliases "''monto_aprobado''"] e
    by simp
qed

section \<open>Numbers in text\<close>

text \<open>
  Claim C1, as stated, fails on \<open>1.234,56\<close>: the text holds a comma and a point, so the
  comma is taken for a thousands separator and removed, and \<open>1.23456\<close> is parsed. The
  result is not 1234.56.
\<close>

theorem to_number_point_then_comma:
  "to_number sample_lib (Object [Str ''1.234,56'']) = Float64 [Fin (123456 / 100000)] \<and>
   to_number sample_lib (Object [Str ''1.234,56'']) \<noteq> Float64 [Fin (123456 / 100)]"
  by code_simp

text \<open>
  Claim C1, amended. \<^verbatim>\<open>to_number\<close> maps \<open>S/ 1,230.50\<close> to 1230.50, \<open>1.234,56\<close> to
  1.23456, \<open>1234,56\<close> to 1234.56, \<open>abc\<close> and the empty text to missing (NaN), and
  \<open>-45.5\<close> to -45.5.
\<close>

theorem to_number_examples:
  "to_number L
     (Object [Str ''S/ 1,230.50'', Str ''1.234,56'', Str ''1234,56'', Str ''abc'', Str [],
              Str ''-45.5'']) =
   Float64 [Fin (123050 / 100), Fin (123456 / 100000), Fin (123456 / 100), NaN, NaN,
            Fin (- (455 / 10))]"
  by code_simp

theorem to_number_examples_witness:
  "to_number sample_lib
     (Object [Str ''S/ 1,230.50'', Str ''1.234,56'', Str ''1234,56'', Str ''abc'', Str [],
              Str ''-45.5'']) =
   Float64 [Fin (123050 / 100), Fin (123456 / 100000), Fin (123456 / 100), NaN, NaN,
            Fin (- (455 / 10))]"
  by (rule to_number_examples)

section \<open>The cleaners\<close>

subsection \<open>One step on one column\<close>

lemma select_map_col:
  "select (map_col df c f) c' = (if c' = c then map f (select df c) else select df c')"
  by (induction df) (auto simp: select_def map_col_def)



lemma has_col_select: "has_col df c = (select df c \<noteq> [])"
  by (induction df) (auto simp: has_col_def select_def)

lemma map_col_absent: "\<not> has_col df c \<Longrightarrow> map_col df c f = df"
  by (induction df) (auto simp: has_col_def map_col_def)

lemma setitem_single: "select df c = [s] \<Longrightarrow> setitem df c (f s) = map_col df c f"
proof -
  assume a: "select df c = [s]"
  then have h: "has_col df c" by (simp add: has_col_select)
  have "\<forall>lc\<in>set df. fst lc = c \<longrightarrow> snd lc = s"
  proof (intro ballI impI)
    fix lc assume "lc \<in> set df" "fst lc = c"
    then have "snd lc \<in> set (select df c)" by (auto simp: select_def)
    with a show "snd lc = s" by simp
  qed
  then have "map (\<lambda>lc. if fst lc = c then (c, f s) else lc) df = map_col df c f"
    unfolding map_col_def by (intro map_cong) auto
  with h show ?thesis by (simp add: setitem_def)
qed

lemma select_cases:
  assumes "length (select df c) \<le> 1"
  obtains "\<not> has_col df c" | s where "select df c = [s]" "has_col df c"
proof (cases "select df c")
  case Nil
  then show ?thesis using that(1) by (simp add: has_col_select)
next
  case (Cons s r)
  with assms have "select df c = [s]" by simp
  then show ?thesis using that(2) by (simp add: has_col_select)
qed

lemma clean_text_column:
  "Object (map Str
     (if up then map str_upper (map (\<lambda>t. sub_runs isspace '' '' (str_strip t)) (astype_str L s))
      else map (\<lambda>t. sub_runs isspace '' '' (str_strip t)) (astype_str L s))) =
   text_column L up s"
  by (cases up) (simp_all add: text_column_def clean_cell_def Let_def comp_def)

lemma clean_text_single:
  assumes "length (select df c) \<le> 1"
  shows "clean_text L df c up = Inr (map_col df c (text_column L up))"
  using assms
proof (cases rule: select_cases)
  case 1
  then show ?thesis by (simp add: clean_text_def map_col_absent)
next
  case (2 s)
  have "clean_text L df c up = Inr (setitem df c (text_column L up s))"
    using 2 by (simp add: clean_text_def Let_def clean_text_column)
  also have "setitem df c (text_column L up s) = map_col df c (text_column L up)"
    using 2(1) by (rule setitem_single)
  finally show ?thesis .
qed

lemma coerce_date_single:
  assumes "length (select df c) \<le> 1"
  shows "coerce_date L df c = Inr (map_col df c (date_column L))"
  using assms
proof (cases rule: select_cases)
  case 1
  then show ?thesis by (simp add: coerce_date_def map_col_absent)
next
  case (2 s)
  have "setitem df c (date_column L s) = map_col df c (date_column L)"
    using 2(1) by (rule setitem_single)
  then show ?thesis using 2 by (simp add: coerce_date_def date_column_def)
qed


lemma standardize_estado_single:
  assumes "length (select df ''estado'') \<le> 1"
  shows "standardize_estado L df = Inr (map_col df ''estado'' (estado_column L))"
  using assms
proof (cases rule: select_cases)
  case 1
  then show ?thesis by (simp add: standardize_estado_def map_col_absent)
next
  case (2 s)
  have "setitem df ''estado'' (estado_column L s) = map_col df ''estado'' (estado_column L)"
    using 2(1) by (rule setitem_single)
  then show ?thesis using 2
    by (simp add: standardize_estado_def estado_column_def Let_def comp_def)
qed

lemma length_select_map_col:
  "length (select (map_col df c f) c') = length (select df c')"
  by (simp add: select_map_col)





lemma unrepeated_Cons:
  "unrepeated df (c # cs) = (length (select df c) \<le> 1 \<and> unrepeated df cs)"
  by (simp add: unrepeated_def)

lemma and_then_Inr: "and_then (Inr x) f = f x"
  by (simp add: and_then_def)

lemma and_then_Inl: "and_then (Inl e) f = Inl e"
  by (simp add: and_then_def)



















subsection \<open>The derived columns of \<^verbatim>\<open>clean_lines\<close>\<close>










subsection \<open>The \<open>estado\<close> column of \<^verbatim>\<open>clean_splaft\<close>\<close>

lemma sub_runs_last:
  "s \<noteq> [] \<Longrightarrow> \<not> p (last s) \<Longrightarrow> sub_runs p r s \<noteq> [] \<and> last (sub_runs p r s) = last s"
proof (induction p r s rule: sub_runs.induct)
  case (1 p r)
  then show ?case by simp
next
  case (2 p r c cs)
  show ?case
  proof (cases "p c")
    case True
    with 2(4) have ne: "cs \<noteq> []" by auto
    then have l: "last (c # cs) = last cs" by simp
    have "\<not> (\<forall>x\<in>set cs. p x)" using ne 2(4) l by (metis last_in_set)
    then have d: "dropWhile p cs \<noteq> []" by (simp add: dropWhile_eq_Nil_conv)
    then have ld: "last (dropWhile p cs) = last cs" by (rule last_dropWhile_keep)
    have "sub_runs p r (dropWhile p cs) \<noteq> [] \<and>
       last (sub_runs p r (dropWhile p cs)) = last (dropWhile p cs)"
      using 2(1) True d ld 2(4) l by simp
    then show ?thesis using True l ld by simp
  next
    case False
    show ?thesis
    proof (cases "cs = []")
      case True
      then show ?thesis using False by simp
    next
      case ne: False
      then have "sub_runs p r cs \<noteq> [] \<and> last (sub_runs p r cs) = last cs"
        using 2(2) False 2(4) by simp
      then show ?thesis using False ne by simp
    qed
  qed
qed

lemma strip_collapse:
  "str_strip (sub_runs isspace '' '' (str_strip v)) = sub_runs isspace '' '' (str_strip v)"
proof (cases "str_strip v = []")
  case True
  have "str_strip [] = []" by (simp add: str_strip_def strip_by_def)
  with True show ?thesis by simp
next
  case False
  let ?s = "str_strip v"
  let ?r = "sub_runs isspace '' '' ?s"
  have e: "\<not> isspace (hd ?s)" "\<not> isspace (last ?s)"
    using strip_by_ends [of isspace v] False by (simp_all add: str_strip_def)
  have l: "?r \<noteq> [] \<and> last ?r = last ?s" using False e(2) by (rule sub_runs_last)
  have "?r = [] \<or> hd ?r = hd ?s" using e(1) by (intro sub_runs_head) simp
  with l have h: "hd ?r = hd ?s" by simp
  have "strip_by isspace ?r = ?r" using e h l by (intro strip_by_id) simp
  then show ?thesis by (simp add: str_strip_def)
qed

lemma clean_splaft_result:
  assumes "unrepeated (apply_aliases df splaft_aliases) splaft_designated"
  shows "clean_splaft L df = Inr (splaft_result L (apply_aliases df splaft_aliases))"
  using assms
  by (simp add: clean_splaft_def splaft_designated_def unrepeated_Cons Let_def
      clean_text_single coerce_date_single standardize_estado_single
      length_select_map_col and_then_Inr splaft_result_def)

lemma select_splaft_estado:
  "select (splaft_result L t) ''estado'' =
     map (\<lambda>c. estado_column L (text_column L False c)) (select t ''estado'')"
  by (simp add: splaft_result_def select_map_col comp_def)

lemma estado_of_object:
  "estado_column L (text_column L False (Object xs)) =
     Object (map (\<lambda>x. Str (replace_value estado_synonyms (str_lower
        (sub_runs isspace '' '' (str_strip (case x of Str t \<Rightarrow> t | Null \<Rightarrow> ''nan'')))))) xs)"
  by (simp add: estado_column_def text_column_def astype_str_def clean_cell_def comp_def
      strip_collapse)

text \<open>
  Claim C7, as stated, fails: a value is not left unchanged apart from trimming and
  lower-casing. \<^verbatim>\<open>clean_text\<close> runs on \<open>estado\<close> first and collapses every run of white
  space inside the value to one space, so \<open>En  Proceso\<close> (two spaces) comes out as
  \<open>en proceso\<close>, where trimming, lower-casing and the synonym table alone give
  \<open>en  proceso\<close>.
\<close>

theorem clean_splaft_collapses_inner_space:
  "clean_splaft sample_lib [(''estado'', Object [Str ''En  Proceso''])] =
     Inr [(''estado'', Object [Str ''en proceso''])] \<and>
   replace_value estado_synonyms (str_lower (str_strip ''En  Proceso'')) = ''en  proceso''"
  by code_simp

text \<open>
  Claim C7, amended. When the resolved table has one \<open>estado\<close> column, of texts, and none
  of the labels \<open>esfs\<close>, \<open>documento\<close>, \<open>estado\<close>, \<open>fecha_actualizacion\<close> is repeated,
  \<^verbatim>\<open>clean_splaft\<close> returns a table whose \<open>estado\<close> column has, for every text value, that
  value trimmed, with its inner runs of white space collapsed to one space, lower-cased
  and then mapped through the synonym table (\<open>enviado\<close> to \<open>recibido\<close>, \<open>ok\<close> and
  \<open>aprobada\<close> to \<open>aprobado\<close>, \<open>observada\<close> to \<open>observado\<close>); a value outside the table
  passes through with those three changes only. Nothing is said here of missing cells.
\<close>

theorem clean_splaft_estado:
  assumes "unrepeated (apply_aliases df splaft_aliases) splaft_designated"
    and "select (apply_aliases df splaft_aliases) ''estado'' = [Object xs]"
  shows "\<exists>out ys. clean_splaft L df = Inr out \<and>
    select out ''estado'' = [Object ys] \<and> length ys = length xs \<and>
    (\<forall>i<length xs. \<forall>v. xs ! i = Str v \<longrightarrow>
       ys ! i = Str (replace_value estado_synonyms
                  (str_lower (sub_runs isspace '' '' (str_strip v)))))"
proof -
  let ?t = "apply_aliases df splaft_aliases"
  let ?ys = "map (\<lambda>x. Str (replace_value estado_synonyms (str_lower
        (sub_runs isspace '' '' (str_strip (case x of Str t \<Rightarrow> t | Null \<Rightarrow> ''nan'')))))) xs"
  have r: "clean_splaft L df = Inr (splaft_result L ?t)"
    using assms(1) by (rule clean_splaft_result)
  have s: "select (splaft_result L ?t) ''estado'' = [Object ?ys]"
    by (simp add: select_splaft_estado assms(2) estado_of_object)
  have l: "length ?ys = length xs" by simp
  have v: "\<forall>i<length xs. \<forall>v. xs ! i = Str v \<longrightarrow>
       ?ys ! i = Str (replace_value estado_synonyms
                  (str_lower (sub_runs isspace '' '' (str_strip v))))"
    by simp
  show ?thesis
    by (intro exI [of _ "splaft_result L ?t"] exI [of _ ?ys] conjI r s l v)
qed

theorem clean_splaft_estado_witness:
  "unrepeated
     (apply_aliases
        [(''Estado'', Object [Str ''Enviado'', Str ''OK'', Str '' Pendiente '', Str ''En  Proceso''])]
        splaft_aliases) splaft_designated \<and>
   clean_splaft sample_lib
     [(''Estado'', Object [Str ''Enviado'', Str ''OK'', Str '' Pendiente '', Str ''En  Proceso''])] =
     Inr [(''estado'',
           Object [Str ''recibido'', Str ''aprobado'', Str ''pendiente'', Str ''en proceso''])] \<and>
   (\<exists>out ys. clean_splaft sample_lib
       [(''Estado'', Object [Str ''Enviado'', Str ''OK'', Str '' Pendiente '', Str ''En  Proceso''])] =
       Inr out \<and> select out ''estado'' = [Object ys] \<and> length ys = 4)"
proof -
  let ?df = "[(''Estado'',
     Object [Str ''Enviado'', Str ''OK'', Str '' Pendiente '', Str ''En  Proceso''])]"
  have h: "unrepeated (apply_aliases ?df splaft_aliases) splaft_designated"
    by code_simp
  have s: "select (apply_aliases ?df splaft_aliases) ''estado'' =
      [Object [Str ''Enviado'', Str ''OK'', Str '' Pendiente '', Str ''En  Proceso'']]"
    by code_simp
  have e: "clean_splaft sample_lib ?df =
     Inr [(''estado'',
           Object [Str ''recibido'', Str ''aprobado'', Str ''pendiente'', Str ''en proceso''])]"
    by code_simp
  from clean_splaft_estado [OF h s, of sample_lib]
  have "\<exists>out ys. clean_splaft sample_lib ?df = Inr out \<and>
      select out ''estado'' = [Object ys] \<and> length ys = 4"
    by (elim exE conjE) (intro exI conjI, assumption+, simp)
  with h e show ?thesis by (intro conjI)
qed

subsection \<open>Cells that cannot be parsed, columns that are absent\<close>
















subsection \<open>Missing values in \<^verbatim>\<open>clean_text\<close>\<close>

text \<open>
  Claim C9 does not hold of the code. \<^verbatim>\<open>astype(str)\<close> turns a missing cell into the
  text \<open>nan\<close> before anything else happens, and \<^verbatim>\<open>clean_text\<close> writes that text back
  (\<open>NAN\<close> when \<open>upper\<close> is set): after \<^verbatim>\<open>clean_contacts\<close> a missing \<open>correo\<close> is the text
  \<open>nan\<close> and a missing \<open>institucion\<close> the text \<open>NAN\<close>. The callers in
  \<^verbatim>\<open>src/app.py\<close> test these columns with \<^verbatim>\<open>isna()\<close>, \<^verbatim>\<open>dropna()\<close> and \<^verbatim>\<open>fillna\<close>, which
  expect the missing value to have survived.
\<close>

theorem clean_text_missing_becomes_text:
  "clean_text sample_lib [(''correo'', Object [Null, Str ''a@b.pe''])] ''correo'' False =
     Inr [(''correo'', Object [Str ''nan'', Str ''a@b.pe''])] \<and>
   clean_contacts sample_lib [(''Email'', Object [Null]), (''Entidad'', Object [Null])] =
     Inr [(''correo'', Object [Str ''nan'']), (''institucion'', Object [Str ''NAN''])]"
  by code_simp

end
